theory Spec2Isabelle
  imports Main "HOL-Library.AList" "HOL-Library.Sublist"
begin

section \<open>The supplied source files\<close>

text \<open>
  The repository consists of five C preprocessor header files.  Each one is embedded as
  the list of its text lines, exactly as written; everything else in this theory is computed
  from these lines by a small model of the C preprocessor's lexical level.
\<close>

record source_file =
  path :: string
  text_lines :: "string list"

definition Task2_config_h :: source_file where
  \<open>Task2_config_h = \<lparr>
     path = ''Task2_PriorityGuardian/config.h'',
     text_lines = [
       ''#ifndef CONFIG_H'',
       ''#define CONFIG_H'',
       '''',
       ''// WiFi Credentials'',
       ''#define WIFI_SSID "vivo V30 Pro"'',
       ''#define WIFI_PASSWORD "micromax"'',
       '''',
       ''// MQTT Broker'',
       ''#define MQTT_BROKER "broker.mqttdashboard.com"'',
       ''#define MQTT_PORT 1883'',
       '''',
       ''// Team Identifiers'',
       ''#define TEAM_ID "aniruddhyembedded"'',
       ''#define REEF_ID "aniruddhyelluriyembedded"'',
       '''',
       ''// Hardware Pins (RGB LED)'',
       ''#define LED_RED 18'',
       ''#define LED_GREEN 19'',
       ''#define LED_BLUE 23'',
       ''#define BUTTON_PIN 4'',
       '''',
       ''// OLED Display'',
       ''#define OLED_SDA 21'',
       ''#define OLED_SCL 22'',
       ''#define OLED_ADDR 0x3C'',
       '''',
       ''#endif'',
       ''''
     ] \<rparr>\<close>

definition Task2_priority_guardian_config_h :: source_file where
  \<open>Task2_priority_guardian_config_h = \<lparr>
     path = ''Task2_PriorityGuardian/priority_guardian/config.h'',
     text_lines = [
       ''#ifndef CONFIG_H'',
       ''#define CONFIG_H'',
       '''',
       ''// WiFi Credentials'',
       ''#define WIFI_SSID "vivohotspot"'',
       ''#define WIFI_PASSWORD "micromax"'',
       '''',
       ''// MQTT Broker'',
       ''#define MQTT_BROKER "broker.mqttdashboard.com"'',
       ''#define MQTT_PORT 1883'',
       '''',
       ''// Team Identifiers'',
       ''#define TEAM_ID "aniruddhyembedded"'',
       ''#define REEF_ID "aniruddhyelluriyembedded"'',
       '''',
       ''// Hardware Pins'',
       ''#define DISTRESS_LED 2  // ESP32 onboard LED'',
       '''',
       ''#endif'',
       ''''
     ] \<rparr>\<close>

definition Task3_config_h :: source_file where
  \<open>Task3_config_h = \<lparr>
     path = ''Task3_WindowSync/config.h'',
     text_lines = [
       ''#ifndef CONFIG_H'',
       ''#define CONFIG_H'',
       '''',
       ''// WiFi Credentials'',
       ''#define WIFI_SSID "crn_net"'',
       ''#define WIFI_PASSWORD "crn_l016"'',
       '''',
       ''// MQTT Broker'',
       ''#define MQTT_BROKER "broker.mqttdashboard.com"'',
       ''#define MQTT_PORT 1883'',
       '''',
       ''// Team Identifiers'',
       ''#define TEAM_ID "aniruddhyembedded"'',
       ''#define REEF_ID "aniruddhyelluriyembedded"'',
       '''',
       ''// Window Topic from Task 2 - UPDATE THIS WITH YOUR ACTUAL CODE'',
       ''#define WINDOW_TOPIC "lkjhgf_window"'',
       '''',
       ''// Hardware Pins (Common Anode RGB LED)'',
       ''#define LED_RED 18      // Red channel - no window indicator'',
       ''#define LED_GREEN 19    // Green channel - button press indicator'',
       ''#define LED_BLUE 23     // Blue channel - window open indicator'',
       ''#define BUTTON_PIN 4    // Push button'',
       '''',
       ''// OLED Display (optional)'',
       ''#define OLED_SDA 21'',
       ''#define OLED_SCL 22'',
       ''#define OLED_ADDR 0x3C'',
       '''',
       ''#endif'',
       ''''
     ] \<rparr>\<close>

definition Task4_config_h :: source_file where
  \<open>Task4_config_h = \<lparr>
     path = ''Task4_Steganography/config.h'',
     text_lines = [
       ''#ifndef CONFIG_H'',
       ''#define CONFIG_H'',
       '''',
       ''// WiFi Credentials'',
       ''#define WIFI_SSID "crn_net"'',
       ''#define WIFI_PASSWORD "crn_l016"'',
       '''',
       ''// MQTT Broker'',
       ''#define MQTT_BROKER "broker.mqttdashboard.com"'',
       ''#define MQTT_PORT 1883'',
       '''',
       ''// Team Identifiers'',
       ''#define TEAM_ID "aniruddhyembedded"'',
       ''#define REEF_ID "aniruddhyelluriyembedded"'',
       '''',
       ''// Task 4 specific'',
       ''#define CHALLENGE_CODE "lkjhgf"           // From Task 2'',
       ''#define REQUEST_TOPIC "kelpsaute/steganography"'',
       ''#define HIDDEN_MESSAGE "lkjhgf"           // Hidden message from Task 3'',
       '''',
       ''#endif'',
       ''''
     ] \<rparr>\<close>

definition Task6_oled_driver_h :: source_file where
  \<open>Task6_oled_driver_h = \<lparr>
     path = ''Task6_Submit/oled_driver.h'',
     text_lines = [
       ''/*'',
       '' * OLED Driver Helper for Task 6'',
       '' * Uses Adafruit SSD1306 library'',
       '' */'',
       '''',
       ''#ifndef OLED_DRIVER_H'',
       ''#define OLED_DRIVER_H'',
       '''',
       ''#include <Wire.h>'',
       ''#include <Adafruit_GFX.h>'',
       ''#include <Adafruit_SSD1306.h>'',
       '''',
       ''#define SCREEN_WIDTH   128'',
       ''#define SCREEN_HEIGHT  64'',
       ''#define OLED_RESET     -1'',
       ''#define OLED_ADDR      0x3C'',
       ''#define I2C_SDA        21'',
       ''#define I2C_SCL        22'',
       '''',
       ''#endif''
     ] \<rparr>\<close>

definition supplied_files :: "source_file list" where
  "supplied_files =
     [Task2_config_h, Task2_priority_guardian_config_h, Task3_config_h, Task4_config_h,
      Task6_oled_driver_h]"

section \<open>Lexical model of the preprocessor\<close>

text \<open>
  Only the fragment of C that gives a header of constants its meaning is recognised:
  blank lines, comments, the include guard (\<open>#ifndef\<close>, \<open>#endif\<close>), \<open>#include\<close>, and
  object-like \<open>#define\<close> whose body is empty, a string literal or an integer literal,
  optionally followed by a line comment.  Every other line is classified \<open>Other\<close>: this
  covers declarations, statements, function-like macros, macro bodies that are expressions
  or refer to other macros, and every other directive (\<open>#undef\<close>, \<open>#if\<close>, ...).
\<close>

datatype literal = StrLit string | IntLit int

datatype line_kind =
    Blank
  | Comment
  | Ifndef string
  | Endif
  | Include string
  | Define string "literal option"
  | Other

definition is_blank_char :: "char \<Rightarrow> bool" where
  "is_blank_char c = (c = CHR '' '' \<or> c = CHR 0x09)"

definition is_digit :: "char \<Rightarrow> bool" where
  "is_digit c = (48 \<le> (of_char c :: nat) \<and> (of_char c :: nat) \<le> 57)"

definition is_upper_hex :: "char \<Rightarrow> bool" where
  "is_upper_hex c = (65 \<le> (of_char c :: nat) \<and> (of_char c :: nat) \<le> 70)"

definition is_lower_hex :: "char \<Rightarrow> bool" where
  "is_lower_hex c = (97 \<le> (of_char c :: nat) \<and> (of_char c :: nat) \<le> 102)"

definition is_hex_digit :: "char \<Rightarrow> bool" where
  "is_hex_digit c = (is_digit c \<or> is_upper_hex c \<or> is_lower_hex c)"

definition is_ident_start :: "char \<Rightarrow> bool" where
  "is_ident_start c =
     ((65 \<le> (of_char c :: nat) \<and> (of_char c :: nat) \<le> 90) \<or>
      (97 \<le> (of_char c :: nat) \<and> (of_char c :: nat) \<le> 122) \<or> c = CHR ''_'')"

definition is_ident_char :: "char \<Rightarrow> bool" where
  "is_ident_char c = (is_ident_start c \<or> is_digit c)"

definition digit_val :: "char \<Rightarrow> int" where
  "digit_val c =
     (if is_digit c then int (of_char c) - 48
      else if is_upper_hex c then int (of_char c) - 55
      else int (of_char c) - 87)"

definition digits_value :: "int \<Rightarrow> string \<Rightarrow> int" where
  "digits_value base ds = foldl (\<lambda>a c. a * base + digit_val c) 0 ds"

definition starts_with :: "string \<Rightarrow> string \<Rightarrow> bool" where
  "starts_with p s = (take (length p) s = p)"

text \<open>What may follow the last token of a directive: blanks, then nothing or a line comment.\<close>

definition trailing_ok :: "string \<Rightarrow> bool" where
  "trailing_ok s = (let r = dropWhile is_blank_char s in r = [] \<or> starts_with ''//'' r)"

text \<open>
  An unsigned integer literal: hexadecimal with the prefix \<open>0x\<close>, or decimal.  A literal
  with a leading zero (octal in C) is not recognised.
\<close>

definition scan_unsigned :: "string \<Rightarrow> (int \<times> string) option" where
  "scan_unsigned s =
     (if starts_with ''0x'' s \<or> starts_with ''0X'' s then
        (let ds = takeWhile is_hex_digit (drop 2 s) in
         if ds = [] then None
         else Some (digits_value 16 ds, dropWhile is_hex_digit (drop 2 s)))
      else
        (let ds = takeWhile is_digit s in
         if ds = [] then None
         else if starts_with ''0'' ds \<and> 1 < length ds then None
         else Some (digits_value 10 ds, dropWhile is_digit s)))"

definition negate_scanned :: "(int \<times> string) \<Rightarrow> (literal \<times> string)" where
  "negate_scanned r = (IntLit (- fst r), snd r)"

definition keep_scanned :: "(int \<times> string) \<Rightarrow> (literal \<times> string)" where
  "keep_scanned r = (IntLit (fst r), snd r)"

text \<open>
  A literal at the head of the text, with the text after it.  A string literal runs to the
  next double quote (character 0x22); one that contains a backslash (0x5C) is not
  recognised, so no escape sequence is ever interpreted.  A minus sign in front of an
  integer literal is read as its sign.
\<close>

fun scan_literal :: "string \<Rightarrow> (literal \<times> string) option" where
  "scan_literal [] = None"
| "scan_literal (c # t) =
     (if c = CHR 0x22 then
        (let body = takeWhile (\<lambda>x. x \<noteq> CHR 0x22) t;
             r = dropWhile (\<lambda>x. x \<noteq> CHR 0x22) t
         in if r = [] \<or> CHR 0x5C \<in> set body then None else Some (StrLit body, tl r))
      else if c = CHR ''-'' then map_option negate_scanned (scan_unsigned t)
      else map_option keep_scanned (scan_unsigned (c # t)))"

text \<open>
  The body of an object-like macro, from the text after its name: \<open>Some None\<close> for an
  empty body, \<open>Some (Some v)\<close> for a single literal, \<open>None\<close> for anything else.
\<close>

definition define_body :: "string \<Rightarrow> literal option option" where
  "define_body s =
     (if trailing_ok s then Some None
      else (case scan_literal (dropWhile is_blank_char s) of
              None \<Rightarrow> None
            | Some (v, t) \<Rightarrow> if trailing_ok t then Some (Some v) else None))"

definition lex_include :: "string \<Rightarrow> line_kind" where
  "lex_include a =
     (case a of
        [] \<Rightarrow> Other
      | c # t \<Rightarrow>
          (let close = (if c = CHR ''<'' then CHR ''>'' else CHR 0x22);
               r = dropWhile (\<lambda>x. x \<noteq> close) t
           in if c \<noteq> CHR ''<'' \<and> c \<noteq> CHR 0x22 then Other
              else if r = [] then Other
              else if trailing_ok (tl r) then Include (takeWhile (\<lambda>x. x \<noteq> close) t)
              else Other))"

text \<open>The text after the \<open>#\<close> of a directive line.\<close>

definition lex_directive :: "string \<Rightarrow> line_kind" where
  "lex_directive s =
     (let t = dropWhile is_blank_char s;
          kw = takeWhile is_ident_char t;
          a = dropWhile is_blank_char (dropWhile is_ident_char t);
          name = takeWhile is_ident_char a;
          rest = dropWhile is_ident_char a
      in if kw = ''endif'' then (if trailing_ok a then Endif else Other)
         else if kw = ''include'' then lex_include a
         else if name = [] \<or> is_digit (hd name) then Other
         else if kw = ''ifndef'' then (if trailing_ok rest then Ifndef name else Other)
         else if kw = ''define'' then
           (case define_body rest of None \<Rightarrow> Other | Some b \<Rightarrow> Define name b)
         else Other)"

text \<open>A line that is outside every block comment and does not open one.\<close>

definition lex_line :: "string \<Rightarrow> line_kind" where
  "lex_line l =
     (let s = dropWhile is_blank_char l
      in if s = [] then Blank
         else if starts_with ''//'' s then Comment
         else if starts_with ''#'' s then lex_directive (tl s)
         else Other)"

text \<open>The text after the first \<open>*/\<close>, if there is one.\<close>

fun after_close :: "string \<Rightarrow> string option" where
  "after_close (a # b # s) =
     (if a = CHR ''*'' \<and> b = CHR ''/'' then Some s else after_close (b # s))"
| "after_close _ = None"

text \<open>
  The lines of a file, the flag telling whether a block comment is open.  A block comment
  is only recognised when it opens at the start of a line and is followed by nothing on
  the line where it closes; any other use makes the line \<open>Other\<close>.
\<close>

fun lex_lines :: "bool \<Rightarrow> string list \<Rightarrow> line_kind list" where
  "lex_lines in_comment [] = []"
| "lex_lines True (l # ls) =
     (case after_close l of
        None \<Rightarrow> Comment # lex_lines True ls
      | Some r \<Rightarrow> (if trailing_ok r then Comment else Other) # lex_lines False ls)"
| "lex_lines False (l # ls) =
     (if starts_with ''/*'' (dropWhile is_blank_char l) then
        (case after_close (drop 2 (dropWhile is_blank_char l)) of
           None \<Rightarrow> Comment # lex_lines True ls
         | Some r \<Rightarrow> (if trailing_ok r then Comment else Other) # lex_lines False ls)
      else lex_line l # lex_lines False ls)"

definition directives :: "source_file \<Rightarrow> line_kind list" where
  "directives f = lex_lines False (text_lines f)"

section \<open>Macros defined by a file\<close>

fun define_of :: "line_kind \<Rightarrow> (string \<times> literal option) list" where
  "define_of (Define n b) = [(n, b)]"
| "define_of _ = []"

definition defined_macros :: "source_file \<Rightarrow> (string \<times> literal option) list" where
  "defined_macros f = concat (map define_of (directives f))"

definition defined_names :: "source_file \<Rightarrow> string list" where
  "defined_names f = map fst (defined_macros f)"

text \<open>The value a file gives a name: \<open>None\<close> when the file does not define the name or gives it an empty body.\<close>

definition macro_value :: "source_file \<Rightarrow> string \<Rightarrow> literal option" where
  "macro_value f n = (case map_of (defined_macros f) n of Some (Some v) \<Rightarrow> Some v | _ \<Rightarrow> None)"

text \<open>The files named \<open>config.h\<close>: the file name is the text after the last slash.\<close>

definition base_name :: "string \<Rightarrow> string" where
  "base_name p = rev (takeWhile (\<lambda>c. c \<noteq> CHR ''/'') (rev p))"

definition config_files :: "source_file list" where
  "config_files = filter (\<lambda>f. base_name (path f) = ''config.h'') supplied_files"

text \<open>The non-blank, non-comment lines of a file.\<close>

definition is_layout :: "line_kind \<Rightarrow> bool" where
  "is_layout l = (l = Blank \<or> l = Comment)"

definition directive_lines :: "source_file \<Rightarrow> line_kind list" where
  "directive_lines f = filter (\<lambda>l. \<not> is_layout l) (directives f)"

fun is_define_or_include :: "line_kind \<Rightarrow> bool" where
  "is_define_or_include (Define n b) = True"
| "is_define_or_include (Include h) = True"
| "is_define_or_include _ = False"

text \<open>
  An include-guarded header of constants: \<open>#ifndef G\<close>, \<open>#define G\<close> with an empty body,
  then only \<open>#define\<close> and \<open>#include\<close> lines, then \<open>#endif\<close>.
\<close>

fun guarded_constants :: "line_kind list \<Rightarrow> bool" where
  "guarded_constants (Ifndef g # Define g' None # rest) =
     (g = g' \<and> rest \<noteq> [] \<and> last rest = Endif \<and> list_all is_define_or_include (butlast rest))"
| "guarded_constants _ = False"

section \<open>Running the preprocessor\<close>

text \<open>
  To run the preprocessor over a file, the body of a macro is read as one of three things:
  nothing, a literal, or any other replacement text.  A line the lexer has classified
  \<open>Other\<close> is read once more: \<open>#undef\<close> of a name and an object-like \<open>#define\<close> whose
  body is not a literal are understood; every remaining line (a declaration, a statement,
  a function-like macro, any other directive) is \<open>PUnknown\<close>, a line whose effect on the
  macro table the model does not know.
\<close>

datatype body = Empty | Lit literal | Text string

datatype pp_line =
    PLayout
  | PIfndef string
  | PEndif
  | PInclude string
  | PDefine string body
  | PUndef string
  | PUnknown

definition read_other :: "string \<Rightarrow> pp_line" where
  "read_other l =
     (let s = dropWhile is_blank_char l;
          t = dropWhile is_blank_char (drop 1 s);
          kw = takeWhile is_ident_char t;
          a = dropWhile is_blank_char (dropWhile is_ident_char t);
          name = takeWhile is_ident_char a;
          rest = dropWhile is_ident_char a
      in if \<not> starts_with ''#'' s then PUnknown
         else if name = [] \<or> is_digit (hd name) then PUnknown
         else if kw = ''undef'' then (if trailing_ok rest then PUndef name else PUnknown)
         else if kw = ''define'' then
           (if starts_with ''('' rest then PUnknown
            else PDefine name (Text (dropWhile is_blank_char rest)))
         else PUnknown)"

fun pp_line_of :: "string \<Rightarrow> line_kind \<Rightarrow> pp_line" where
  "pp_line_of l Blank = PLayout"
| "pp_line_of l Comment = PLayout"
| "pp_line_of l (Ifndef n) = PIfndef n"
| "pp_line_of l Endif = PEndif"
| "pp_line_of l (Include h) = PInclude h"
| "pp_line_of l (Define n None) = PDefine n Empty"
| "pp_line_of l (Define n (Some v)) = PDefine n (Lit v)"
| "pp_line_of l Other = read_other l"

definition pp_lines :: "source_file \<Rightarrow> pp_line list" where
  "pp_lines f = map2 pp_line_of (text_lines f) (directives f)"

text \<open>
  The macro table while the lines of a file are processed in order.  \<open>skipping\<close> counts
  the conditional groups that are open and being skipped: an \<open>#ifndef\<close> of a name that is
  already in the table starts skipping, nested conditionals inside a skipped group are
  counted, and the matching \<open>#endif\<close> ends it.  Outside a skipped group a \<open>#define\<close>
  binds its name, replacing an earlier binding of the same name, and an \<open>#undef\<close> removes
  the binding.

  The headers named by \<open>#include\<close> are library headers that are not part of the repository.
  What including one does to the macro table is therefore a parameter of the run, of type
  \<open>header_effect\<close>: any function from the header's name and the table before to the table
  after.  A line that is \<open>PUnknown\<close> makes the run fail.
\<close>

type_synonym macro_table = "(string \<times> body) list"

type_synonym header_effect = "string \<Rightarrow> macro_table \<Rightarrow> macro_table"

record pp_state =
  macros :: macro_table
  skipping :: nat

definition pp_init :: pp_state where
  "pp_init = \<lparr>macros = [], skipping = 0\<rparr>"

fun pp_step :: "header_effect \<Rightarrow> pp_state \<Rightarrow> pp_line \<Rightarrow> pp_state option" where
  "pp_step hdr st PLayout = Some st"
| "pp_step hdr st (PIfndef n) =
     Some (if 0 < skipping st then st\<lparr>skipping := skipping st + 1\<rparr>
           else if n \<in> set (map fst (macros st)) then st\<lparr>skipping := 1\<rparr>
           else st)"
| "pp_step hdr st PEndif =
     Some (if 0 < skipping st then st\<lparr>skipping := skipping st - 1\<rparr> else st)"
| "pp_step hdr st (PInclude h) =
     Some (if 0 < skipping st then st else st\<lparr>macros := hdr h (macros st)\<rparr>)"
| "pp_step hdr st (PDefine n b) =
     Some (if 0 < skipping st then st else st\<lparr>macros := AList.update n b (macros st)\<rparr>)"
| "pp_step hdr st (PUndef n) =
     Some (if 0 < skipping st then st else st\<lparr>macros := AList.delete n (macros st)\<rparr>)"
| "pp_step hdr st PUnknown = None"

fun run_lines :: "header_effect \<Rightarrow> pp_state \<Rightarrow> pp_line list \<Rightarrow> pp_state option" where
  "run_lines hdr st [] = Some st"
| "run_lines hdr st (l # ls) =
     (case pp_step hdr st l of None \<Rightarrow> None | Some st' \<Rightarrow> run_lines hdr st' ls)"

definition preprocess :: "header_effect \<Rightarrow> pp_state \<Rightarrow> source_file \<Rightarrow> pp_state option" where
  "preprocess hdr st f = run_lines hdr st (pp_lines f)"

text \<open>
  The value a use of a name has in the running program.  A literal body is its own value.
  The value of any other replacement text is whatever the running program computes for
  it, which may depend on its input: the \<open>runtime\<close> gives it.
\<close>

type_synonym runtime = "string \<Rightarrow> literal option"

fun body_value :: "runtime \<Rightarrow> body \<Rightarrow> literal option" where
  "body_value rt Empty = None"
| "body_value rt (Lit v) = Some v"
| "body_value rt (Text t) = rt t"

definition constant_value :: "runtime \<Rightarrow> pp_state \<Rightarrow> string \<Rightarrow> literal option" where
  "constant_value rt st n =
     (case map_of (macros st) n of None \<Rightarrow> None | Some b \<Rightarrow> body_value rt b)"

text \<open>The lines that may change what a given name is bound to.\<close>

fun touches :: "string \<Rightarrow> pp_line \<Rightarrow> bool" where
  "touches n (PInclude h) = True"
| "touches n (PDefine m b) = (m = n)"
| "touches n (PUndef m) = (m = n)"
| "touches n PUnknown = True"
| "touches n PLayout = False"
| "touches n (PIfndef m) = False"
| "touches n PEndif = False"

text \<open>No line after the \<open>#define\<close> of a literal touches the name it defines.\<close>

fun constants_quiet :: "pp_line list \<Rightarrow> bool" where
  "constants_quiet [] = True"
| "constants_quiet (PDefine n (Lit v) # post) =
     (list_all (\<lambda>l. \<not> touches n l) post \<and> constants_quiet post)"
| "constants_quiet (l # post) = constants_quiet post"

text \<open>Every line is reached outside a skipped group and has a known effect.\<close>

fun runs_unskipped :: "header_effect \<Rightarrow> pp_state \<Rightarrow> pp_line list \<Rightarrow> bool" where
  "runs_unskipped hdr st [] = True"
| "runs_unskipped hdr st (l # ls) =
     (skipping st = 0 \<and>
      (case pp_step hdr st l of None \<Rightarrow> False | Some st' \<Rightarrow> runs_unskipped hdr st' ls))"

text \<open>A \<open>#define\<close> line of a header of constants: the guard, or a name with a literal.\<close>

fun guard_or_literal :: "string list \<Rightarrow> pp_line \<Rightarrow> bool" where
  "guard_or_literal gs (PDefine n Empty) = (n \<in> set gs)"
| "guard_or_literal gs (PDefine n (Lit v)) = True"
| "guard_or_literal gs (PDefine n (Text t)) = False"
| "guard_or_literal gs l = True"

text \<open>A line that neither opens a conditional group nor has an unknown effect.\<close>

fun harmless :: "pp_line \<Rightarrow> bool" where
  "harmless (PIfndef g) = False"
| "harmless PUnknown = False"
| "harmless l = True"

text \<open>
  Read inside \<open>d\<close> open skipped groups, the lines close all of them, and only layout
  follows the last \<open>#endif\<close>.
\<close>

fun skips_to_end :: "nat \<Rightarrow> pp_line list \<Rightarrow> bool" where
  "skips_to_end d [] = (d = 0)"
| "skips_to_end 0 (l # ls) = (l = PLayout \<and> skips_to_end 0 ls)"
| "skips_to_end (Suc d) (PIfndef g # ls) = skips_to_end (Suc (Suc d)) ls"
| "skips_to_end (Suc d) (PEndif # ls) = skips_to_end d ls"
| "skips_to_end (Suc d) (PUnknown # ls) = False"
| "skips_to_end (Suc d) (PLayout # ls) = skips_to_end (Suc d) ls"
| "skips_to_end (Suc d) (PInclude h # ls) = skips_to_end (Suc d) ls"
| "skips_to_end (Suc d) (PDefine n b # ls) = skips_to_end (Suc d) ls"
| "skips_to_end (Suc d) (PUndef n # ls) = skips_to_end (Suc d) ls"

text \<open>
  A header whose first directive is its only \<open>#ifndef\<close>, closed by an \<open>#endif\<close> that only
  layout follows.
\<close>

fun one_guard :: "pp_line list \<Rightarrow> bool" where
  "one_guard (PLayout # ls) = one_guard ls"
| "one_guard (PIfndef g # ls) = (skips_to_end 1 ls \<and> list_all harmless ls)"
| "one_guard ls = False"

text \<open>The names a file tests with \<open>#ifndef\<close>: its include guard.\<close>

fun guard_of :: "line_kind \<Rightarrow> string list" where
  "guard_of (Ifndef n) = [n]"
| "guard_of _ = []"

definition guard_names :: "source_file \<Rightarrow> string list" where
  "guard_names f = concat (map guard_of (directives f))"

text \<open>
  Every line of the file is understood by the lexer, and every \<open>#define\<close> in it has a
  literal for its body, or is the include guard with an empty body.
\<close>

definition literal_bodies :: "source_file \<Rightarrow> bool" where
  "literal_bodies f =
     (Other \<notin> set (directives f) \<and> list_all (guard_or_literal (guard_names f)) (pp_lines f))"

section \<open>Relations between values\<close>

text \<open>The constants of a file: the macros it defines with a literal value.\<close>

fun constant_of :: "string \<times> literal option \<Rightarrow> (string \<times> literal) list" where
  "constant_of (n, Some v) = [(n, v)]"
| "constant_of (n, None) = []"

definition constants :: "source_file \<Rightarrow> (string \<times> literal) list" where
  "constants f = concat (map constant_of (defined_macros f))"

definition all_constants :: "(string \<times> literal) list" where
  "all_constants = remdups (concat (map constants supplied_files))"

text \<open>
  One value is determined by another when the two are equal or, for strings, when the
  first is a concatenation that contains the second.
\<close>

fun determined_by :: "literal \<Rightarrow> literal \<Rightarrow> bool" where
  "determined_by (StrLit a) (StrLit b) = sublist b a"
| "determined_by (IntLit a) (IntLit b) = (a = b)"
| "determined_by (StrLit a) (IntLit b) = False"
| "determined_by (IntLit a) (StrLit b) = False"

fun string_of :: "literal option \<Rightarrow> string option" where
  "string_of (Some (StrLit s)) = Some s"
| "string_of _ = None"

definition string_value :: "source_file \<Rightarrow> string \<Rightarrow> string option" where
  "string_value f n = string_of (macro_value f n)"

section \<open>Vocabulary of the claims\<close>

text \<open>The constants every configuration file is expected to define.\<close>

definition required_constants :: "string list" where
  "required_constants =
     [''WIFI_SSID'', ''WIFI_PASSWORD'', ''MQTT_BROKER'', ''MQTT_PORT'', ''TEAM_ID'', ''REEF_ID'']"

text \<open>The constants that name a pin, and the GPIO numbers of the ESP32.\<close>

definition pin_names :: "string list" where
  "pin_names =
     [''LED_RED'', ''LED_GREEN'', ''LED_BLUE'', ''BUTTON_PIN'', ''OLED_SDA'', ''OLED_SCL'',
      ''DISTRESS_LED'', ''I2C_SDA'', ''I2C_SCL'', ''OLED_RESET'']"

definition valid_gpio :: "int \<Rightarrow> bool" where
  "valid_gpio p = (0 \<le> p \<and> p \<le> 39)"

fun is_valid_pin :: "literal \<Rightarrow> bool" where
  "is_valid_pin (IntLit p) = valid_gpio p"
| "is_valid_pin (StrLit s) = False"

text \<open>The names whose values are allowed to differ from file to file.\<close>

definition wifi_credentials :: "string list" where
  "wifi_credentials = [''WIFI_SSID'', ''WIFI_PASSWORD'']"

section \<open>What the lexer reads in each file\<close>

lemma directives_Task2_config_h:
  "directives Task2_config_h =
     [Ifndef ''CONFIG_H'', Define ''CONFIG_H'' None, Blank, Comment,
      Define ''WIFI_SSID'' (Some (StrLit ''vivo V30 Pro'')),
      Define ''WIFI_PASSWORD'' (Some (StrLit ''micromax'')), Blank, Comment,
      Define ''MQTT_BROKER'' (Some (StrLit ''broker.mqttdashboard.com'')),
      Define ''MQTT_PORT'' (Some (IntLit 1883)), Blank, Comment,
      Define ''TEAM_ID'' (Some (StrLit ''aniruddhyembedded'')),
      Define ''REEF_ID'' (Some (StrLit ''aniruddhyelluriyembedded'')), Blank, Comment,
      Define ''LED_RED'' (Some (IntLit 18)),
      Define ''LED_GREEN'' (Some (IntLit 19)),
      Define ''LED_BLUE'' (Some (IntLit 23)),
      Define ''BUTTON_PIN'' (Some (IntLit 4)), Blank, Comment,
      Define ''OLED_SDA'' (Some (IntLit 21)),
      Define ''OLED_SCL'' (Some (IntLit 22)),
      Define ''OLED_ADDR'' (Some (IntLit 0x3C)), Blank, Endif, Blank]"
  by code_simp

lemma directives_Task2_priority_guardian_config_h:
  "directives Task2_priority_guardian_config_h =
     [Ifndef ''CONFIG_H'', Define ''CONFIG_H'' None, Blank, Comment,
      Define ''WIFI_SSID'' (Some (StrLit ''vivohotspot'')),
      Define ''WIFI_PASSWORD'' (Some (StrLit ''micromax'')), Blank, Comment,
      Define ''MQTT_BROKER'' (Some (StrLit ''broker.mqttdashboard.com'')),
      Define ''MQTT_PORT'' (Some (IntLit 1883)), Blank, Comment,
      Define ''TEAM_ID'' (Some (StrLit ''aniruddhyembedded'')),
      Define ''REEF_ID'' (Some (StrLit ''aniruddhyelluriyembedded'')), Blank, Comment,
      Define ''DISTRESS_LED'' (Some (IntLit 2)), Blank, Endif, Blank]"
  by code_simp

lemma directives_Task3_config_h:
  "directives Task3_config_h =
     [Ifndef ''CONFIG_H'', Define ''CONFIG_H'' None, Blank, Comment,
      Define ''WIFI_SSID'' (Some (StrLit ''crn_net'')),
      Define ''WIFI_PASSWORD'' (Some (StrLit ''crn_l016'')), Blank, Comment,
      Define ''MQTT_BROKER'' (Some (StrLit ''broker.mqttdashboard.com'')),
      Define ''MQTT_PORT'' (Some (IntLit 1883)), Blank, Comment,
      Define ''TEAM_ID'' (Some (StrLit ''aniruddhyembedded'')),
      Define ''REEF_ID'' (Some (StrLit ''aniruddhyelluriyembedded'')), Blank, Comment,
      Define ''WINDOW_TOPIC'' (Some (StrLit ''lkjhgf_window'')), Blank, Comment,
      Define ''LED_RED'' (Some (IntLit 18)),
      Define ''LED_GREEN'' (Some (IntLit 19)),
      Define ''LED_BLUE'' (Some (IntLit 23)),
      Define ''BUTTON_PIN'' (Some (IntLit 4)), Blank, Comment,
      Define ''OLED_SDA'' (Some (IntLit 21)),
      Define ''OLED_SCL'' (Some (IntLit 22)),
      Define ''OLED_ADDR'' (Some (IntLit 0x3C)), Blank, Endif, Blank]"
  by code_simp

lemma directives_Task4_config_h:
  "directives Task4_config_h =
     [Ifndef ''CONFIG_H'', Define ''CONFIG_H'' None, Blank, Comment,
      Define ''WIFI_SSID'' (Some (StrLit ''crn_net'')),
      Define ''WIFI_PASSWORD'' (Some (StrLit ''crn_l016'')), Blank, Comment,
      Define ''MQTT_BROKER'' (Some (StrLit ''broker.mqttdashboard.com'')),
      Define ''MQTT_PORT'' (Some (IntLit 1883)), Blank, Comment,
      Define ''TEAM_ID'' (Some (StrLit ''aniruddhyembedded'')),
      Define ''REEF_ID'' (Some (StrLit ''aniruddhyelluriyembedded'')), Blank, Comment,
      Define ''CHALLENGE_CODE'' (Some (StrLit ''lkjhgf'')),
      Define ''REQUEST_TOPIC'' (Some (StrLit ''kelpsaute/steganography'')),
      Define ''HIDDEN_MESSAGE'' (Some (StrLit ''lkjhgf'')), Blank, Endif, Blank]"
  by code_simp

lemma directives_Task6_oled_driver_h:
  "directives Task6_oled_driver_h =
     [Comment, Comment, Comment, Comment, Blank,
      Ifndef ''OLED_DRIVER_H'', Define ''OLED_DRIVER_H'' None, Blank,
      Include ''Wire.h'', Include ''Adafruit_GFX.h'', Include ''Adafruit_SSD1306.h'', Blank,
      Define ''SCREEN_WIDTH'' (Some (IntLit 128)),
      Define ''SCREEN_HEIGHT'' (Some (IntLit 64)),
      Define ''OLED_RESET'' (Some (IntLit (- 1))),
      Define ''OLED_ADDR'' (Some (IntLit 0x3C)),
      Define ''I2C_SDA'' (Some (IntLit 21)),
      Define ''I2C_SCL'' (Some (IntLit 22)), Blank, Endif]"
  by code_simp

lemmas directives_simps =
  directives_Task2_config_h directives_Task2_priority_guardian_config_h
  directives_Task3_config_h directives_Task4_config_h directives_Task6_oled_driver_h

lemma defined_macros_Task2_config_h:
  "defined_macros Task2_config_h =
     [(''CONFIG_H'', None),
      (''WIFI_SSID'', Some (StrLit ''vivo V30 Pro'')),
      (''WIFI_PASSWORD'', Some (StrLit ''micromax'')),
      (''MQTT_BROKER'', Some (StrLit ''broker.mqttdashboard.com'')),
      (''MQTT_PORT'', Some (IntLit 1883)),
      (''TEAM_ID'', Some (StrLit ''aniruddhyembedded'')),
      (''REEF_ID'', Some (StrLit ''aniruddhyelluriyembedded'')),
      (''LED_RED'', Some (IntLit 18)),
      (''LED_GREEN'', Some (IntLit 19)),
      (''LED_BLUE'', Some (IntLit 23)),
      (''BUTTON_PIN'', Some (IntLit 4)),
      (''OLED_SDA'', Some (IntLit 21)),
      (''OLED_SCL'', Some (IntLit 22)),
      (''OLED_ADDR'', Some (IntLit 0x3C))]"
  by (simp add: defined_macros_def directives_Task2_config_h)

lemma defined_macros_Task2_priority_guardian_config_h:
  "defined_macros Task2_priority_guardian_config_h =
     [(''CONFIG_H'', None),
      (''WIFI_SSID'', Some (StrLit ''vivohotspot'')),
      (''WIFI_PASSWORD'', Some (StrLit ''micromax'')),
      (''MQTT_BROKER'', Some (StrLit ''broker.mqttdashboard.com'')),
      (''MQTT_PORT'', Some (IntLit 1883)),
      (''TEAM_ID'', Some (StrLit ''aniruddhyembedded'')),
      (''REEF_ID'', Some (StrLit ''aniruddhyelluriyembedded'')),
      (''DISTRESS_LED'', Some (IntLit 2))]"
  by (simp add: defined_macros_def directives_Task2_priority_guardian_config_h)

lemma defined_macros_Task3_config_h:
  "defined_macros Task3_config_h =
     [(''CONFIG_H'', None),
      (''WIFI_SSID'', Some (StrLit ''crn_net'')),
      (''WIFI_PASSWORD'', Some (StrLit ''crn_l016'')),
      (''MQTT_BROKER'', Some (StrLit ''broker.mqttdashboard.com'')),
      (''MQTT_PORT'', Some (IntLit 1883)),
      (''TEAM_ID'', Some (StrLit ''aniruddhyembedded'')),
      (''REEF_ID'', Some (StrLit ''aniruddhyelluriyembedded'')),
      (''WINDOW_TOPIC'', Some (StrLit ''lkjhgf_window'')),
      (''LED_RED'', Some (IntLit 18)),
      (''LED_GREEN'', Some (IntLit 19)),
      (''LED_BLUE'', Some (IntLit 23)),
      (''BUTTON_PIN'', Some (IntLit 4)),
      (''OLED_SDA'', Some (IntLit 21)),
      (''OLED_SCL'', Some (IntLit 22)),
      (''OLED_ADDR'', Some (IntLit 0x3C))]"
  by (simp add: defined_macros_def directives_Task3_config_h)

lemma defined_macros_Task4_config_h:
  "defined_macros Task4_config_h =
     [(''CONFIG_H'', None),
      (''WIFI_SSID'', Some (StrLit ''crn_net'')),
      (''WIFI_PASSWORD'', Some (StrLit ''crn_l016'')),
      (''MQTT_BROKER'', Some (StrLit ''broker.mqttdashboard.com'')),
      (''MQTT_PORT'', Some (IntLit 1883)),
      (''TEAM_ID'', Some (StrLit ''aniruddhyembedded'')),
      (''REEF_ID'', Some (StrLit ''aniruddhyelluriyembedded'')),
      (''CHALLENGE_CODE'', Some (StrLit ''lkjhgf'')),
      (''REQUEST_TOPIC'', Some (StrLit ''kelpsaute/steganography'')),
      (''HIDDEN_MESSAGE'', Some (StrLit ''lkjhgf''))]"
  by (simp add: defined_macros_def directives_Task4_config_h)

lemma defined_macros_Task6_oled_driver_h:
  "defined_macros Task6_oled_driver_h =
     [(''OLED_DRIVER_H'', None),
      (''SCREEN_WIDTH'', Some (IntLit 128)),
      (''SCREEN_HEIGHT'', Some (IntLit 64)),
      (''OLED_RESET'', Some (IntLit (- 1))),
      (''OLED_ADDR'', Some (IntLit 0x3C)),
      (''I2C_SDA'', Some (IntLit 21)),
      (''I2C_SCL'', Some (IntLit 22))]"
  by (simp add: defined_macros_def directives_Task6_oled_driver_h)

lemmas defined_macros_simps =
  defined_macros_Task2_config_h defined_macros_Task2_priority_guardian_config_h
  defined_macros_Task3_config_h defined_macros_Task4_config_h defined_macros_Task6_oled_driver_h

lemma config_files_eq:
  "config_files =
     [Task2_config_h, Task2_priority_guardian_config_h, Task3_config_h, Task4_config_h]"
  by (simp add: config_files_def supplied_files_def base_name_def Task2_config_h_def
      Task2_priority_guardian_config_h_def Task3_config_h_def Task4_config_h_def
      Task6_oled_driver_h_def)

lemma supplied_files_cases:
  assumes "f \<in> set supplied_files"
  obtains "f = Task2_config_h" | "f = Task2_priority_guardian_config_h"
    | "f = Task3_config_h" | "f = Task4_config_h" | "f = Task6_oled_driver_h"
  using assms by (auto simp: supplied_files_def)

lemma length_lex_lines: "length (lex_lines c ls) = length ls"
  by (induction c ls rule: lex_lines.induct) (simp_all split: option.splits)

lemma macro_value_mem:
  "macro_value f n = Some v \<Longrightarrow> (n, Some v) \<in> set (defined_macros f)"
  by (auto simp: macro_value_def split: option.splits dest: map_of_SomeD)

lemma pins_checked:
  assumes "f \<in> set supplied_files"
  shows "\<forall>(n, b) \<in> set (defined_macros f). n \<in> set pin_names \<longrightarrow>
           (if n = ''OLED_RESET'' then b = Some (IntLit (- 1))
            else \<exists>p. b = Some (IntLit p) \<and> valid_gpio p)"
  using assms
  by (rule supplied_files_cases)
     (simp_all add: pin_names_def valid_gpio_def defined_macros_simps)

lemma shared_checked:
  assumes "f \<in> set supplied_files" and "g \<in> set supplied_files"
  shows "\<forall>(n, b) \<in> set (defined_macros f).
           n \<in> set wifi_credentials \<or> n \<notin> set (defined_names g) \<or>
           map_of (defined_macros g) n = Some b"
  using assms
  by (elim supplied_files_cases)
     (simp_all add: wifi_credentials_def defined_names_def defined_macros_simps)

lemma distinct_defined_names:
  assumes "f \<in> set supplied_files"
  shows "distinct (map fst (defined_macros f))"
  using assms
  by (rule supplied_files_cases) (simp_all add: defined_macros_simps)

section \<open>The preprocessor run keeps every constant as written\<close>

lemma pp_lines_Task2_config_h:
  "pp_lines Task2_config_h =
     [PIfndef ''CONFIG_H'', PDefine ''CONFIG_H'' Empty, PLayout, PLayout,
      PDefine ''WIFI_SSID'' (Lit (StrLit ''vivo V30 Pro'')),
      PDefine ''WIFI_PASSWORD'' (Lit (StrLit ''micromax'')), PLayout, PLayout,
      PDefine ''MQTT_BROKER'' (Lit (StrLit ''broker.mqttdashboard.com'')),
      PDefine ''MQTT_PORT'' (Lit (IntLit 1883)), PLayout, PLayout,
      PDefine ''TEAM_ID'' (Lit (StrLit ''aniruddhyembedded'')),
      PDefine ''REEF_ID'' (Lit (StrLit ''aniruddhyelluriyembedded'')), PLayout, PLayout,
      PDefine ''LED_RED'' (Lit (IntLit 18)),
      PDefine ''LED_GREEN'' (Lit (IntLit 19)),
      PDefine ''LED_BLUE'' (Lit (IntLit 23)),
      PDefine ''BUTTON_PIN'' (Lit (IntLit 4)), PLayout, PLayout,
      PDefine ''OLED_SDA'' (Lit (IntLit 21)),
      PDefine ''OLED_SCL'' (Lit (IntLit 22)),
      PDefine ''OLED_ADDR'' (Lit (IntLit 0x3C)), PLayout, PEndif, PLayout]"
  unfolding pp_lines_def directives_Task2_config_h by (simp add: Task2_config_h_def)

lemma pp_lines_Task2_priority_guardian_config_h:
  "pp_lines Task2_priority_guardian_config_h =
     [PIfndef ''CONFIG_H'', PDefine ''CONFIG_H'' Empty, PLayout, PLayout,
      PDefine ''WIFI_SSID'' (Lit (StrLit ''vivohotspot'')),
      PDefine ''WIFI_PASSWORD'' (Lit (StrLit ''micromax'')), PLayout, PLayout,
      PDefine ''MQTT_BROKER'' (Lit (StrLit ''broker.mqttdashboard.com'')),
      PDefine ''MQTT_PORT'' (Lit (IntLit 1883)), PLayout, PLayout,
      PDefine ''TEAM_ID'' (Lit (StrLit ''aniruddhyembedded'')),
      PDefine ''REEF_ID'' (Lit (StrLit ''aniruddhyelluriyembedded'')), PLayout, PLayout,
      PDefine ''DISTRESS_LED'' (Lit (IntLit 2)), PLayout, PEndif, PLayout]"
  unfolding pp_lines_def directives_Task2_priority_guardian_config_h by (simp add: Task2_priority_guardian_config_h_def)

lemma pp_lines_Task3_config_h:
  "pp_lines Task3_config_h =
     [PIfndef ''CONFIG_H'', PDefine ''CONFIG_H'' Empty, PLayout, PLayout,
      PDefine ''WIFI_SSID'' (Lit (StrLit ''crn_net'')),
      PDefine ''WIFI_PASSWORD'' (Lit (StrLit ''crn_l016'')), PLayout, PLayout,
      PDefine ''MQTT_BROKER'' (Lit (StrLit ''broker.mqttdashboard.com'')),
      PDefine ''MQTT_PORT'' (Lit (IntLit 1883)), PLayout, PLayout,
      PDefine ''TEAM_ID'' (Lit (StrLit ''aniruddhyembedded'')),
      PDefine ''REEF_ID'' (Lit (StrLit ''aniruddhyelluriyembedded'')), PLayout, PLayout,
      PDefine ''WINDOW_TOPIC'' (Lit (StrLit ''lkjhgf_window'')), PLayout, PLayout,
      PDefine ''LED_RED'' (Lit (IntLit 18)),
      PDefine ''LED_GREEN'' (Lit (IntLit 19)),
      PDefine ''LED_BLUE'' (Lit (IntLit 23)),
      PDefine ''BUTTON_PIN'' (Lit (IntLit 4)), PLayout, PLayout,
      PDefine ''OLED_SDA'' (Lit (IntLit 21)),
      PDefine ''OLED_SCL'' (Lit (IntLit 22)),
      PDefine ''OLED_ADDR'' (Lit (IntLit 0x3C)), PLayout, PEndif, PLayout]"
  unfolding pp_lines_def directives_Task3_config_h by (simp add: Task3_config_h_def)

lemma pp_lines_Task4_config_h:
  "pp_lines Task4_config_h =
     [PIfndef ''CONFIG_H'', PDefine ''CONFIG_H'' Empty, PLayout, PLayout,
      PDefine ''WIFI_SSID'' (Lit (StrLit ''crn_net'')),
      PDefine ''WIFI_PASSWORD'' (Lit (StrLit ''crn_l016'')), PLayout, PLayout,
      PDefine ''MQTT_BROKER'' (Lit (StrLit ''broker.mqttdashboard.com'')),
      PDefine ''MQTT_PORT'' (Lit (IntLit 1883)), PLayout, PLayout,
      PDefine ''TEAM_ID'' (Lit (StrLit ''aniruddhyembedded'')),
      PDefine ''REEF_ID'' (Lit (StrLit ''aniruddhyelluriyembedded'')), PLayout, PLayout,
      PDefine ''CHALLENGE_CODE'' (Lit (StrLit ''lkjhgf'')),
      PDefine ''REQUEST_TOPIC'' (Lit (StrLit ''kelpsaute/steganography'')),
      PDefine ''HIDDEN_MESSAGE'' (Lit (StrLit ''lkjhgf'')), PLayout, PEndif, PLayout]"
  unfolding pp_lines_def directives_Task4_config_h by (simp add: Task4_config_h_def)

lemma pp_lines_Task6_oled_driver_h:
  "pp_lines Task6_oled_driver_h =
     [PLayout, PLayout, PLayout, PLayout, PLayout,
      PIfndef ''OLED_DRIVER_H'', PDefine ''OLED_DRIVER_H'' Empty, PLayout,
      PInclude ''Wire.h'', PInclude ''Adafruit_GFX.h'', PInclude ''Adafruit_SSD1306.h'', PLayout,
      PDefine ''SCREEN_WIDTH'' (Lit (IntLit 128)),
      PDefine ''SCREEN_HEIGHT'' (Lit (IntLit 64)),
      PDefine ''OLED_RESET'' (Lit (IntLit (- 1))),
      PDefine ''OLED_ADDR'' (Lit (IntLit 0x3C)),
      PDefine ''I2C_SDA'' (Lit (IntLit 21)),
      PDefine ''I2C_SCL'' (Lit (IntLit 22)), PLayout, PEndif]"
  unfolding pp_lines_def directives_Task6_oled_driver_h by (simp add: Task6_oled_driver_h_def)

lemmas pp_lines_simps =
  pp_lines_Task2_config_h pp_lines_Task2_priority_guardian_config_h
  pp_lines_Task3_config_h pp_lines_Task4_config_h pp_lines_Task6_oled_driver_h

lemma run_lines_append:
  "run_lines hdr st (xs @ ys) =
     (case run_lines hdr st xs of None \<Rightarrow> None | Some s \<Rightarrow> run_lines hdr s ys)"
  by (induction xs arbitrary: st) (simp_all split: option.splits)

lemma pp_step_keeps:
  assumes "\<not> touches n l" and "map_of (macros st) n = Some b"
  shows "\<exists>st'. pp_step hdr st l = Some st' \<and> map_of (macros st') n = Some b"
  using assms by (cases l) (auto simp: update_conv' delete_conv')

lemma run_lines_keeps:
  assumes "list_all (\<lambda>l. \<not> touches n l) ls" and "map_of (macros st) n = Some b"
  shows "\<exists>st'. run_lines hdr st ls = Some st' \<and> map_of (macros st') n = Some b"
  using assms
proof (induction ls arbitrary: st)
  case Nil
  then show ?case by simp
next
  case (Cons l ls)
  from Cons.prems obtain s where s: "pp_step hdr st l = Some s" "map_of (macros s) n = Some b"
    using pp_step_keeps [of n l st b hdr] by auto
  from Cons.prems have "list_all (\<lambda>l. \<not> touches n l) ls"
    by simp
  from Cons.IH [OF this s(2)] s(1) show ?case
    by simp
qed

lemma constants_quiet_after:
  assumes "constants_quiet (pre @ PDefine n (Lit v) # post)"
  shows "list_all (\<lambda>l. \<not> touches n l) post"
  using assms
proof (induction pre)
  case Nil
  then show ?case by simp
next
  case (Cons l pre)
  then show ?case
    by (cases "(l # pre @ PDefine n (Lit v) # post)" rule: constants_quiet.cases) simp_all
qed

lemma runs_unskipped_prefix:
  assumes "runs_unskipped hdr st (pre @ l # post)"
  shows "\<exists>s. run_lines hdr st pre = Some s \<and> skipping s = 0"
  using assms
proof (induction pre arbitrary: st)
  case Nil
  then show ?case by simp
next
  case (Cons k pre)
  then show ?case
    by (auto split: option.splits)
qed

lemma files_guard_or_literal:
  assumes "f \<in> set supplied_files"
  shows "list_all (guard_or_literal (guard_names f)) (pp_lines f)"
  using assms
  by (rule supplied_files_cases)
     (simp_all add: guard_names_def directives_simps pp_lines_simps)

lemma files_constants_quiet:
  assumes "f \<in> set supplied_files"
  shows "constants_quiet (pp_lines f)"
  using assms
  by (rule supplied_files_cases) (simp_all add: pp_lines_simps)

lemma files_run_unskipped:
  assumes "f \<in> set supplied_files"
  shows "runs_unskipped hdr pp_init (pp_lines f)"
  using assms
  by (rule supplied_files_cases) (simp_all add: pp_lines_simps pp_init_def)

lemma files_no_other:
  assumes "f \<in> set supplied_files"
  shows "Other \<notin> set (directives f)"
  using assms
  by (rule supplied_files_cases) (simp_all add: directives_simps)

lemma list_all_take:
  "list_all P xs \<Longrightarrow> list_all P (take j xs)"
  by (auto simp: list_all_iff dest: in_set_takeD)

lemma harmless_run:
  assumes "list_all harmless ls" and "skipping st = 0"
  shows "runs_unskipped hdr st ls \<and> (\<exists>s. run_lines hdr st ls = Some s \<and> skipping s = 0)"
  using assms
proof (induction ls arbitrary: st)
  case Nil
  then show ?case by simp
next
  case (Cons l ls)
  from Cons.prems obtain s where s: "pp_step hdr st l = Some s" "skipping s = 0"
    by (cases l) auto
  from Cons.prems have "list_all harmless ls"
    by simp
  from Cons.IH [OF this s(2)] s Cons.prems(2) show ?case
    by simp
qed

lemma skipped_run:
  assumes "skips_to_end d ls" and "skipping st = d"
  shows "run_lines hdr st ls = Some (st\<lparr>skipping := 0\<rparr>)"
  using assms
  by (induction d ls arbitrary: st rule: skips_to_end.induct) simp_all

lemma one_guard_rerun:
  assumes "one_guard ls" and "skipping st = 0"
  shows "run_lines hdr st ls = Some st \<or> runs_unskipped hdr st ls"
  using assms
proof (induction ls rule: one_guard.induct)
  case (1 ls)
  then show ?case by auto
next
  case (2 g ls)
  show ?case
  proof (cases "g \<in> set (map fst (macros st))")
    case True
    from "2.prems" have "run_lines hdr (st\<lparr>skipping := 1\<rparr>) ls = Some (st\<lparr>skipping := 1\<rparr>\<lparr>skipping := 0\<rparr>)"
      by (intro skipped_run [where d = 1]) simp_all
    with True "2.prems"(2) show ?thesis by simp
  next
    case False
    from "2.prems" have "runs_unskipped hdr st ls"
      using harmless_run by simp
    with False "2.prems"(2) show ?thesis by simp
  qed
qed simp_all

lemma one_guard_end:
  assumes "one_guard ls" and "skipping st = 0" and "run_lines hdr st ls = Some st'"
  shows "skipping st' = 0"
  using assms
proof (induction ls rule: one_guard.induct)
  case (1 ls)
  then show ?case by auto
next
  case (2 g ls)
  show ?thesis
  proof (cases "g \<in> set (map fst (macros st))")
    case True
    from "2.prems" have "run_lines hdr (st\<lparr>skipping := 1\<rparr>) ls = Some (st\<lparr>skipping := 1\<rparr>\<lparr>skipping := 0\<rparr>)"
      by (intro skipped_run [where d = 1]) simp_all
    with True "2.prems"(2,3) show ?thesis by auto
  next
    case False
    from "2.prems" obtain s where "run_lines hdr st ls = Some s" "skipping s = 0"
      using harmless_run [of ls st hdr] by auto
    with False "2.prems"(2,3) show ?thesis by simp
  qed
qed simp_all

lemma files_one_guard:
  assumes "f \<in> set supplied_files"
  shows "one_guard (pp_lines f)"
  using assms
  by (rule supplied_files_cases) (simp_all add: pp_lines_simps)

lemma constant_stays_bound:
  assumes run: "runs_unskipped hdr st0 (pre @ PDefine n (Lit v) # post)"
    and quiet: "constants_quiet (pre @ PDefine n (Lit v) # post)"
  shows "\<exists>st. run_lines hdr st0 (pre @ PDefine n (Lit v) # take j post) = Some st \<and>
              map_of (macros st) n = Some (Lit v)"
proof -
  from run obtain s where s: "run_lines hdr st0 pre = Some s" "skipping s = 0"
    using runs_unskipped_prefix by blast
  define s1 where "s1 = s\<lparr>macros := AList.update n (Lit v) (macros s)\<rparr>"
  have step: "pp_step hdr s (PDefine n (Lit v)) = Some s1"
    by (simp add: s1_def s(2))
  have bound: "map_of (macros s1) n = Some (Lit v)"
    by (simp add: s1_def update_conv')
  from quiet have "list_all (\<lambda>l. \<not> touches n l) (take j post)"
    by (intro list_all_take constants_quiet_after)
  from run_lines_keeps [OF this bound, of hdr]
  obtain st where st: "run_lines hdr s1 (take j post) = Some st"
    "map_of (macros st) n = Some (Lit v)"
    by blast
  have "run_lines hdr st0 (pre @ PDefine n (Lit v) # take j post) = Some st"
    by (simp add: run_lines_append s(1) step st(1) del: pp_step.simps)
  with st(2) show ?thesis by blast
qed

lemma files_literal_bodies:
  assumes "f \<in> set supplied_files"
  shows "literal_bodies f"
  using assms by (simp add: literal_bodies_def files_no_other files_guard_or_literal)

section \<open>The constants of all files together\<close>

lemma all_constants_eq:
  "all_constants =
     [(''WIFI_SSID'', StrLit ''vivo V30 Pro''),
      (''WIFI_SSID'', StrLit ''vivohotspot''),
      (''WIFI_PASSWORD'', StrLit ''micromax''),
      (''DISTRESS_LED'', IntLit 2),
      (''WINDOW_TOPIC'', StrLit ''lkjhgf_window''),
      (''LED_RED'', IntLit 18),
      (''LED_GREEN'', IntLit 19),
      (''LED_BLUE'', IntLit 23),
      (''BUTTON_PIN'', IntLit 4),
      (''OLED_SDA'', IntLit 21),
      (''OLED_SCL'', IntLit 22),
      (''WIFI_SSID'', StrLit ''crn_net''),
      (''WIFI_PASSWORD'', StrLit ''crn_l016''),
      (''MQTT_BROKER'', StrLit ''broker.mqttdashboard.com''),
      (''MQTT_PORT'', IntLit 1883),
      (''TEAM_ID'', StrLit ''aniruddhyembedded''),
      (''REEF_ID'', StrLit ''aniruddhyelluriyembedded''),
      (''CHALLENGE_CODE'', StrLit ''lkjhgf''),
      (''REQUEST_TOPIC'', StrLit ''kelpsaute/steganography''),
      (''HIDDEN_MESSAGE'', StrLit ''lkjhgf''),
      (''SCREEN_WIDTH'', IntLit 128),
      (''SCREEN_HEIGHT'', IntLit 64),
      (''OLED_RESET'', IntLit (- 1)),
      (''OLED_ADDR'', IntLit 0x3C),
      (''I2C_SDA'', IntLit 21),
      (''I2C_SCL'', IntLit 22)]"
  by (simp add: all_constants_def supplied_files_def constants_def defined_macros_simps)

lemma macro_value_constant:
  assumes "f \<in> set supplied_files" and "macro_value f n = Some v"
  shows "(n, v) \<in> set all_constants"
proof -
  have "(n, Some v) \<in> set (defined_macros f)"
    using assms(2) by (rule macro_value_mem)
  then have "(n, v) \<in> set (constants f)"
    by (force simp: constants_def)
  with assms(1) show ?thesis
    by (auto simp: all_constants_def)
qed

lemma relations_checked:
  "\<forall>c \<in> set all_constants. \<forall>d \<in> set all_constants.
     fst c = fst d \<or>
     determined_by (snd c) (snd d) =
       ((fst c, fst d) \<in> {(''WINDOW_TOPIC'', ''CHALLENGE_CODE''), (''WINDOW_TOPIC'', ''HIDDEN_MESSAGE''),
                          (''HIDDEN_MESSAGE'', ''CHALLENGE_CODE''), (''CHALLENGE_CODE'', ''HIDDEN_MESSAGE''),
                          (''I2C_SDA'', ''OLED_SDA''), (''OLED_SDA'', ''I2C_SDA''),
                          (''I2C_SCL'', ''OLED_SCL''), (''OLED_SCL'', ''I2C_SCL'')})"
  unfolding all_constants_eq
  by (simp add: sublist_code)

section \<open>Claims\<close>

text \<open>
  C1.  The claim that each of the five headers defines the WiFi, MQTT and team constants
  fails: \<open>Task6_Submit/oled_driver.h\<close> does not define \<open>WIFI_SSID\<close>.
\<close>

theorem required_constants_counterexample:
  "\<not> (\<forall>f \<in> set supplied_files. \<forall>n \<in> set required_constants. n \<in> set (defined_names f))"
proof
  assume all: "\<forall>f \<in> set supplied_files. \<forall>n \<in> set required_constants. n \<in> set (defined_names f)"
  have "Task6_oled_driver_h \<in> set supplied_files"
    by (simp add: supplied_files_def)
  moreover have "''WIFI_SSID'' \<in> set required_constants"
    by (simp add: required_constants_def)
  ultimately have "''WIFI_SSID'' \<in> set (defined_names Task6_oled_driver_h)"
    using all by blast
  then show False
    by (simp add: defined_names_def defined_macros_Task6_oled_driver_h)
qed

text \<open>
  C1, amended.  Each of the four files named \<open>config.h\<close> defines all six constants
  \<open>WIFI_SSID\<close>, \<open>WIFI_PASSWORD\<close>, \<open>MQTT_BROKER\<close>, \<open>MQTT_PORT\<close>, \<open>TEAM_ID\<close> and \<open>REEF_ID\<close>;
  the fifth file, \<open>Task6_Submit/oled_driver.h\<close>, defines none of them.
\<close>

theorem config_files_define_required_constants:
  assumes "n \<in> set required_constants"
  shows "(\<forall>f \<in> set config_files. n \<in> set (defined_names f)) \<and>
         n \<notin> set (defined_names Task6_oled_driver_h) \<and>
         set supplied_files = set config_files \<union> {Task6_oled_driver_h}"
  using assms
  by (auto simp: required_constants_def config_files_eq supplied_files_def defined_names_def
      defined_macros_simps)

theorem config_files_define_required_constants_witness:
  "''MQTT_PORT'' \<in> set required_constants \<and>
   Task4_config_h \<in> set config_files \<and>
   ''MQTT_PORT'' \<in> set (defined_names Task4_config_h) \<and>
   ''MQTT_PORT'' \<notin> set (defined_names Task6_oled_driver_h)"
proof -
  have req: "''MQTT_PORT'' \<in> set required_constants"
    by (simp add: required_constants_def)
  have mem: "Task4_config_h \<in> set config_files"
    by (simp add: config_files_eq)
  from config_files_define_required_constants [OF req] req mem show ?thesis by blast
qed

text \<open>
  C2.  The claim that no constant's value is equal to, or a concatenation involving, another
  constant's value fails: in \<open>Task4_Steganography/config.h\<close> the value of \<open>HIDDEN_MESSAGE\<close>
  equals that of \<open>CHALLENGE_CODE\<close>, and the value of \<open>WINDOW_TOPIC\<close> in
  \<open>Task3_WindowSync/config.h\<close> is that of \<open>CHALLENGE_CODE\<close> followed by "_window".
\<close>

theorem constants_related_counterexample:
  "string_value Task4_config_h ''CHALLENGE_CODE'' = Some ''lkjhgf'' \<and>
   string_value Task3_config_h ''WINDOW_TOPIC'' = Some (''lkjhgf'' @ ''_window'') \<and>
   string_value Task4_config_h ''HIDDEN_MESSAGE'' = string_value Task4_config_h ''CHALLENGE_CODE''"
  by (simp add: string_value_def macro_value_def defined_macros_Task3_config_h
      defined_macros_Task4_config_h)

text \<open>
  C2, amended.  No constant is defined by reference to another: every \<open>#define\<close> body in
  the supplied files is a single literal, or empty for the include guard.  Between the values
  of differently named constants, one equals or, as a string, contains the other for exactly
  five pairs of names: \<open>WINDOW_TOPIC\<close> contains \<open>CHALLENGE_CODE\<close>; \<open>WINDOW_TOPIC\<close> contains
  \<open>HIDDEN_MESSAGE\<close>; \<open>HIDDEN_MESSAGE\<close> equals \<open>CHALLENGE_CODE\<close>; \<open>I2C_SDA\<close> equals \<open>OLED_SDA\<close>;
  \<open>I2C_SCL\<close> equals \<open>OLED_SCL\<close>.  For every other pair neither holds.
\<close>

theorem only_related_constants:
  assumes "f \<in> set supplied_files" and "g \<in> set supplied_files"
    and "macro_value f n = Some v" and "macro_value g m = Some w" and "n \<noteq> m"
  shows "literal_bodies f \<and> literal_bodies g \<and>
         determined_by v w =
           ((n, m) \<in> {(''WINDOW_TOPIC'', ''CHALLENGE_CODE''), (''WINDOW_TOPIC'', ''HIDDEN_MESSAGE''),
                       (''HIDDEN_MESSAGE'', ''CHALLENGE_CODE''), (''CHALLENGE_CODE'', ''HIDDEN_MESSAGE''),
                       (''I2C_SDA'', ''OLED_SDA''), (''OLED_SDA'', ''I2C_SDA''),
                       (''I2C_SCL'', ''OLED_SCL''), (''OLED_SCL'', ''I2C_SCL'')})"
proof -
  let ?related =
    "determined_by v w =
       ((n, m) \<in> {(''WINDOW_TOPIC'', ''CHALLENGE_CODE''), (''WINDOW_TOPIC'', ''HIDDEN_MESSAGE''),
                   (''HIDDEN_MESSAGE'', ''CHALLENGE_CODE''), (''CHALLENGE_CODE'', ''HIDDEN_MESSAGE''),
                   (''I2C_SDA'', ''OLED_SDA''), (''OLED_SDA'', ''I2C_SDA''),
                   (''I2C_SCL'', ''OLED_SCL''), (''OLED_SCL'', ''I2C_SCL'')})"
  have c: "(n, v) \<in> set all_constants"
    using assms(1,3) by (rule macro_value_constant)
  have d: "(m, w) \<in> set all_constants"
    using assms(2,4) by (rule macro_value_constant)
  from relations_checked [rule_format, OF c d]
  have "n = m \<or> ?related"
    unfolding fst_conv snd_conv .
  then have ?related
  proof
    assume "n = m"
    with assms(5) show ?thesis by (rule notE)
  next
    assume ?related
    then show ?thesis .
  qed
  with files_literal_bodies [OF assms(1)] files_literal_bodies [OF assms(2)] show ?thesis
    by (intro conjI)
qed

theorem only_related_constants_witness:
  "Task3_config_h \<in> set supplied_files \<and> Task4_config_h \<in> set supplied_files \<and>
   macro_value Task3_config_h ''WINDOW_TOPIC'' = Some (StrLit ''lkjhgf_window'') \<and>
   macro_value Task4_config_h ''CHALLENGE_CODE'' = Some (StrLit ''lkjhgf'') \<and>
   ''WINDOW_TOPIC'' \<noteq> ''CHALLENGE_CODE'' \<and>
   literal_bodies Task3_config_h \<and> literal_bodies Task4_config_h \<and>
   determined_by (StrLit ''lkjhgf_window'') (StrLit ''lkjhgf'')"
proof -
  have f: "Task3_config_h \<in> set supplied_files" and g: "Task4_config_h \<in> set supplied_files"
    by (simp_all add: supplied_files_def)
  have v: "macro_value Task3_config_h ''WINDOW_TOPIC'' = Some (StrLit ''lkjhgf_window'')"
    by (simp add: macro_value_def defined_macros_Task3_config_h)
  have w: "macro_value Task4_config_h ''CHALLENGE_CODE'' = Some (StrLit ''lkjhgf'')"
    by (simp add: macro_value_def defined_macros_Task4_config_h)
  have ne: "''WINDOW_TOPIC'' \<noteq> ''CHALLENGE_CODE''"
    by simp
  from only_related_constants [OF f g v w ne] f g v w ne show ?thesis
    by simp
qed

text \<open>
  C3.  The claim that every pin-number constant lies in the GPIO range 0..39 fails for
  \<open>OLED_RESET\<close>, which \<open>Task6_Submit/oled_driver.h\<close> defines as -1.
\<close>

theorem pin_range_counterexample:
  "Task6_oled_driver_h \<in> set supplied_files \<and>
   ''OLED_RESET'' \<in> set pin_names \<and>
   macro_value Task6_oled_driver_h ''OLED_RESET'' = Some (IntLit (- 1)) \<and>
   \<not> is_valid_pin (IntLit (- 1))"
  by (simp add: supplied_files_def pin_names_def macro_value_def valid_gpio_def
      defined_macros_Task6_oled_driver_h)

text \<open>
  C3, amended.  Every pin-number constant other than \<open>OLED_RESET\<close> is an integer in the
  GPIO range 0..39 in every file that defines it; \<open>OLED_RESET\<close> is -1.
\<close>

theorem pins_in_gpio_range_except_reset:
  assumes "f \<in> set supplied_files" and "n \<in> set pin_names" and "macro_value f n = Some v"
  shows "if n = ''OLED_RESET'' then v = IntLit (- 1) else is_valid_pin v"
proof -
  have "(n, Some v) \<in> set (defined_macros f)"
    using assms(3) by (rule macro_value_mem)
  with pins_checked [OF assms(1)] assms(2)
  have "if n = ''OLED_RESET'' then Some v = Some (IntLit (- 1))
        else \<exists>p. Some v = Some (IntLit p) \<and> valid_gpio p"
    by blast
  then show ?thesis
    by (auto split: if_splits)
qed

theorem pins_in_gpio_range_except_reset_witness:
  "Task2_priority_guardian_config_h \<in> set supplied_files \<and>
   ''DISTRESS_LED'' \<in> set pin_names \<and>
   macro_value Task2_priority_guardian_config_h ''DISTRESS_LED'' = Some (IntLit 2) \<and>
   is_valid_pin (IntLit 2)"
proof -
  have mem: "Task2_priority_guardian_config_h \<in> set supplied_files"
    by (simp add: supplied_files_def)
  have pin: "''DISTRESS_LED'' \<in> set pin_names"
    by (simp add: pin_names_def)
  have val: "macro_value Task2_priority_guardian_config_h ''DISTRESS_LED'' = Some (IntLit 2)"
    by (simp add: macro_value_def defined_macros_Task2_priority_guardian_config_h)
  from pins_in_gpio_range_except_reset [OF mem pin val] mem pin val show ?thesis by simp
qed

text \<open>
  C4.  In each supplied header file every constant name is defined exactly once: the names
  of the \<open>#define\<close> lines of a file are pairwise different.  No line of the file is left
  unread by the lexer, so no \<open>#define\<close> escapes the count.
\<close>

theorem each_name_defined_once:
  assumes "f \<in> set supplied_files"
  shows "distinct (defined_names f) \<and> Other \<notin> set (directives f)"
  using assms
  by (rule supplied_files_cases)
     (simp_all add: defined_names_def defined_macros_simps directives_simps)

theorem each_name_defined_once_witness:
  "Task6_oled_driver_h \<in> set supplied_files \<and>
   distinct (defined_names Task6_oled_driver_h) \<and>
   Other \<notin> set (directives Task6_oled_driver_h)"
proof -
  have mem: "Task6_oled_driver_h \<in> set supplied_files"
    by (simp add: supplied_files_def)
  from each_name_defined_once [OF mem] mem show ?thesis by simp
qed

text \<open>
  C5.  In every file that defines it, \<open>OLED_ADDR\<close> is the integer 0x3C, the I2C address of
  the SSD1306 display module.
\<close>

theorem oled_addr_is_0x3C:
  assumes "f \<in> set supplied_files" and "''OLED_ADDR'' \<in> set (defined_names f)"
  shows "macro_value f ''OLED_ADDR'' = Some (IntLit 0x3C)"
  using assms
  by (elim supplied_files_cases)
     (simp_all add: macro_value_def defined_names_def defined_macros_simps)

theorem oled_addr_is_0x3C_witness:
  "Task3_config_h \<in> set supplied_files \<and>
   ''OLED_ADDR'' \<in> set (defined_names Task3_config_h) \<and>
   macro_value Task3_config_h ''OLED_ADDR'' = Some (IntLit 0x3C)"
proof -
  have mem: "Task3_config_h \<in> set supplied_files"
    by (simp add: supplied_files_def)
  have def: "''OLED_ADDR'' \<in> set (defined_names Task3_config_h)"
    by (simp add: defined_names_def defined_macros_Task3_config_h)
  from oled_addr_is_0x3C [OF mem def] mem def show ?thesis by simp
qed

text \<open>
  C6.  The supplied source contains no executable logic.  Every line of every file is read
  by the lexer as a blank line, a comment, an include-guard directive, an \<open>#include\<close> or a
  \<open>#define\<close> of a constant, one result per line; and the directives of each file form
  exactly an include guard around \<open>#define\<close> and \<open>#include\<close> lines.
\<close>

theorem no_executable_logic:
  assumes "f \<in> set supplied_files"
  shows "length (directives f) = length (text_lines f) \<and>
         Other \<notin> set (directives f) \<and>
         guarded_constants (directive_lines f)"
proof -
  have "Other \<notin> set (directives f) \<and> guarded_constants (directive_lines f)"
    using assms
    by (rule supplied_files_cases)
       (simp_all add: directive_lines_def is_layout_def directives_simps)
  then show ?thesis
    by (simp add: directives_def length_lex_lines)
qed

theorem no_executable_logic_witness:
  "Task6_oled_driver_h \<in> set supplied_files \<and>
   length (directives Task6_oled_driver_h) = length (text_lines Task6_oled_driver_h) \<and>
   Other \<notin> set (directives Task6_oled_driver_h) \<and>
   guarded_constants (directive_lines Task6_oled_driver_h)"
proof -
  have mem: "Task6_oled_driver_h \<in> set supplied_files"
    by (simp add: supplied_files_def)
  from no_executable_logic [OF mem] mem show ?thesis by simp
qed

text \<open>
  C7.  Every configuration constant's value is fixed at build time.  No line of a supplied
  file is left unread, and every \<open>#define\<close> line in it either is the include guard, with an
  empty body, or binds its name to a single literal; no body is any other text.  Where a
  line binds a name to a literal \<open>v\<close>:
  \<^item> whatever the included library headers do to the macro table (\<open>hdr\<close>), preprocessing
    succeeds after that line and after any number \<open>j\<close> of further lines, and the name is
    still bound to \<open>v\<close>: no later line of the file changes it;
  \<^item> the value a use of the name has in the running program is \<open>v\<close> under every runtime
    input \<open>rt\<close>;
  \<^item> preprocessing the file a second time, as a repeated \<open>#include\<close> would, succeeds and
    leaves the name with the value \<open>v\<close>.
\<close>

theorem constants_fixed_at_build_time:
  assumes "f \<in> set supplied_files" and "pp_lines f = pre @ PDefine n b # post"
  shows "Other \<notin> set (directives f) \<and>
         (case b of
            Empty \<Rightarrow> n \<in> set (guard_names f)
          | Text t \<Rightarrow> False
          | Lit v \<Rightarrow>
              (\<exists>st. run_lines hdr pp_init (pre @ PDefine n b # take j post) = Some st \<and>
                    map_of (macros st) n = Some (Lit v) \<and>
                    constant_value rt st n = Some v) \<and>
              (\<exists>st1 st2. preprocess hdr pp_init f = Some st1 \<and>
                    preprocess hdr st1 f = Some st2 \<and>
                    constant_value rt st2 n = Some v))"
proof
  show "Other \<notin> set (directives f)"
    using assms(1) by (rule files_no_other)
next
  have "PDefine n b \<in> set (pp_lines f)"
    by (simp add: assms(2))
  with files_guard_or_literal [OF assms(1)]
  have shape: "guard_or_literal (guard_names f) (PDefine n b)"
    by (simp add: list_all_iff)
  show "case b of
            Empty \<Rightarrow> n \<in> set (guard_names f)
          | Text t \<Rightarrow> False
          | Lit v \<Rightarrow>
              (\<exists>st. run_lines hdr pp_init (pre @ PDefine n b # take j post) = Some st \<and>
                    map_of (macros st) n = Some (Lit v) \<and>
                    constant_value rt st n = Some v) \<and>
              (\<exists>st1 st2. preprocess hdr pp_init f = Some st1 \<and>
                    preprocess hdr st1 f = Some st2 \<and>
                    constant_value rt st2 n = Some v)"
  proof (cases b)
    case Empty
    with shape show ?thesis by simp
  next
    case (Text t)
    with shape show ?thesis by simp
  next
    case (Lit v)
    have lines: "pp_lines f = pre @ PDefine n (Lit v) # post"
      by (simp add: assms(2) Lit)
    have whole: "pre @ PDefine n (Lit v) # take (length post) post = pp_lines f"
      by (simp add: lines)
    have quiet: "constants_quiet (pre @ PDefine n (Lit v) # post)"
      using files_constants_quiet [OF assms(1)] by (simp add: lines)
    have first: "runs_unskipped hdr pp_init (pre @ PDefine n (Lit v) # post)"
      using files_run_unskipped [OF assms(1), of hdr] by (simp add: lines)
    from constant_stays_bound [OF first quiet, of j]
    obtain st where st: "run_lines hdr pp_init (pre @ PDefine n (Lit v) # take j post) = Some st"
      "map_of (macros st) n = Some (Lit v)"
      by blast
    from constant_stays_bound [OF first quiet, of "length post"]
    obtain st1 where st1: "run_lines hdr pp_init (pp_lines f) = Some st1"
      "map_of (macros st1) n = Some (Lit v)"
      unfolding whole by blast
    have unskipped: "skipping st1 = 0"
      using files_one_guard [OF assms(1)] _ st1(1) by (rule one_guard_end) (simp add: pp_init_def)
    have "\<exists>st2. run_lines hdr st1 (pp_lines f) = Some st2 \<and> map_of (macros st2) n = Some (Lit v)"
      using one_guard_rerun [OF files_one_guard [OF assms(1)] unskipped, of hdr]
    proof
      assume "run_lines hdr st1 (pp_lines f) = Some st1"
      with st1(2) show ?thesis by blast
    next
      assume "runs_unskipped hdr st1 (pp_lines f)"
      then have "runs_unskipped hdr st1 (pre @ PDefine n (Lit v) # post)"
        by (simp add: lines)
      from constant_stays_bound [OF this quiet, of "length post"] show ?thesis
        unfolding whole .
    qed
    then obtain st2 where st2: "run_lines hdr st1 (pp_lines f) = Some st2"
      "map_of (macros st2) n = Some (Lit v)"
      by blast
    have "constant_value rt st n = Some v" and "constant_value rt st2 n = Some v"
      by (simp_all add: constant_value_def st(2) st2(2))
    with st st1(1) st2(1) show ?thesis
      by (simp add: Lit preprocess_def)
  qed
qed

theorem constants_fixed_at_build_time_witness:
  "Task4_config_h \<in> set supplied_files \<and>
   pp_lines Task4_config_h =
     take 16 (pp_lines Task4_config_h) @
     PDefine ''CHALLENGE_CODE'' (Lit (StrLit ''lkjhgf'')) # drop 17 (pp_lines Task4_config_h) \<and>
   Other \<notin> set (directives Task4_config_h) \<and>
   (\<exists>st. run_lines (\<lambda>h t. t) pp_init
           (take 16 (pp_lines Task4_config_h) @
            PDefine ''CHALLENGE_CODE'' (Lit (StrLit ''lkjhgf'')) #
            take 2 (drop 17 (pp_lines Task4_config_h))) = Some st \<and>
         map_of (macros st) ''CHALLENGE_CODE'' = Some (Lit (StrLit ''lkjhgf'')) \<and>
         constant_value (\<lambda>t. None) st ''CHALLENGE_CODE'' = Some (StrLit ''lkjhgf'')) \<and>
   (\<exists>st1 st2. preprocess (\<lambda>h t. t) pp_init Task4_config_h = Some st1 \<and>
         preprocess (\<lambda>h t. t) st1 Task4_config_h = Some st2 \<and>
         constant_value (\<lambda>t. None) st2 ''CHALLENGE_CODE'' = Some (StrLit ''lkjhgf''))"
proof -
  have mem: "Task4_config_h \<in> set supplied_files"
    by (simp add: supplied_files_def)
  have split: "pp_lines Task4_config_h =
     take 16 (pp_lines Task4_config_h) @
     PDefine ''CHALLENGE_CODE'' (Lit (StrLit ''lkjhgf'')) # drop 17 (pp_lines Task4_config_h)"
    by (simp add: pp_lines_Task4_config_h)
  from constants_fixed_at_build_time [OF mem split, of "\<lambda>h t. t" 2 "\<lambda>t. None"] mem split
  show ?thesis by simp
qed

text \<open>
  C8.  A name defined in more than one of the supplied files, other than \<open>WIFI_SSID\<close> and
  \<open>WIFI_PASSWORD\<close>, has the same definition in every file that defines it.  In all four
  configuration files \<open>MQTT_BROKER\<close> is "broker.mqttdashboard.com", \<open>MQTT_PORT\<close> is 1883,
  and \<open>TEAM_ID\<close> and \<open>REEF_ID\<close> are the same two strings.
\<close>

theorem shared_constants_agree:
  assumes "f \<in> set supplied_files" and "g \<in> set supplied_files"
    and "n \<in> set (defined_names f)" and "n \<in> set (defined_names g)"
    and "n \<notin> set wifi_credentials"
  shows "map_of (defined_macros f) n = map_of (defined_macros g) n \<and>
         list_all (\<lambda>c. macro_value c ''MQTT_BROKER'' = Some (StrLit ''broker.mqttdashboard.com'') \<and>
                        macro_value c ''MQTT_PORT'' = Some (IntLit 1883) \<and>
                        macro_value c ''TEAM_ID'' = Some (StrLit ''aniruddhyembedded'') \<and>
                        macro_value c ''REEF_ID'' = Some (StrLit ''aniruddhyelluriyembedded''))
                  config_files"
proof
  from assms(3) obtain b where mem: "(n, b) \<in> set (defined_macros f)"
    by (auto simp: defined_names_def)
  with distinct_defined_names [OF assms(1)] have "map_of (defined_macros f) n = Some b"
    by simp
  moreover from shared_checked [OF assms(1,2)] mem assms(4,5)
  have "map_of (defined_macros g) n = Some b"
    by blast
  ultimately show "map_of (defined_macros f) n = map_of (defined_macros g) n"
    by simp
next
  show "list_all (\<lambda>c. macro_value c ''MQTT_BROKER'' = Some (StrLit ''broker.mqttdashboard.com'') \<and>
                        macro_value c ''MQTT_PORT'' = Some (IntLit 1883) \<and>
                        macro_value c ''TEAM_ID'' = Some (StrLit ''aniruddhyembedded'') \<and>
                        macro_value c ''REEF_ID'' = Some (StrLit ''aniruddhyelluriyembedded''))
                  config_files"
    by (simp add: config_files_eq macro_value_def defined_macros_simps)
qed

theorem shared_constants_agree_witness:
  "Task2_config_h \<in> set supplied_files \<and> Task6_oled_driver_h \<in> set supplied_files \<and>
   ''OLED_ADDR'' \<in> set (defined_names Task2_config_h) \<and>
   ''OLED_ADDR'' \<in> set (defined_names Task6_oled_driver_h) \<and>
   ''OLED_ADDR'' \<notin> set wifi_credentials \<and>
   map_of (defined_macros Task2_config_h) ''OLED_ADDR'' =
     map_of (defined_macros Task6_oled_driver_h) ''OLED_ADDR'' \<and>
   macro_value Task3_config_h ''MQTT_PORT'' = Some (IntLit 1883)"
proof -
  have f: "Task2_config_h \<in> set supplied_files" and g: "Task6_oled_driver_h \<in> set supplied_files"
    by (simp_all add: supplied_files_def)
  have nf: "''OLED_ADDR'' \<in> set (defined_names Task2_config_h)"
    by (simp add: defined_names_def defined_macros_Task2_config_h)
  have ng: "''OLED_ADDR'' \<in> set (defined_names Task6_oled_driver_h)"
    by (simp add: defined_names_def defined_macros_Task6_oled_driver_h)
  have nw: "''OLED_ADDR'' \<notin> set wifi_credentials"
    by (simp add: wifi_credentials_def)
  from shared_constants_agree [OF f g nf ng nw] f g nf ng nw show ?thesis
    by (simp add: config_files_eq)
qed

end
